theory Spec2Isabelle
  imports Main "HOL-Library.Word"
begin

section \<open>The environment of the program\<close>

text \<open>
  The repository is two Python modules: \<^verbatim>\<open>archive.py\<close> (class \<open>Archive\<close>) and
  \<^verbatim>\<open>bak.py\<close> (the command line front end).  Both act on the file system, the clock
  and a handful of standard-library calls.  The file system is a map from path names to
  nodes; the library calls whose results the code only passes on (\<open>pathlib\<close>'s join,
  the MD5 compression function, the bytes \<open>tarfile\<close> and \<open>json\<close> produce) are fields of
  a \<open>platform\<close> record, so every theorem holds whatever they compute.

  Python strings are lists of \<open>char\<close>; a \<open>char\<close> stands for a code point below 256.
  File contents are lists of bytes.  What exists is a directory or a regular file.  The
  system may refuse to examine a path, to open it for writing, or to take more than so many
  bytes, each with an error of its own, which the world tells.  Opening for reading fails
  when the path is missing or a directory, and a file that exists can be read.  Nothing but
  the program changes the file system while a function runs.
\<close>

type_synonym byte = "8 word"

datatype node = Dir | File "byte list"

text \<open>
  An \<open>OSError\<close> as the system raises it: \<open>errno\<close>, \<open>strerror\<close> and \<open>filename\<close>, which is
  \<open>None\<close> when the call that failed had no path (a write).
\<close>

datatype oserror = OSErr (errno: nat) (strerror: string) (filename: "string option")

text \<open>
  The exceptions the two modules raise or let through.  \<open>ArchiveException\<close> and
  \<open>ConfigError\<close> are the repository's classes; \<open>OSError\<close> is what the system calls raise
  (\<open>FileNotFoundError\<close>, \<open>IsADirectoryError\<close> and the others), \<open>TypeError\<close> what
  \<open>os.fspath\<close> raises on \<open>None\<close>, \<open>ValueError\<close> what \<open>json.load\<close> raises on malformed
  input.
\<close>

datatype error =
    ArchiveException string
  | ConfigError string
  | OSError oserror
  | TypeError string
  | ValueError string

datatype json =
    JNull
  | JBool bool
  | JNumber int
  | JString string
  | JArray "json list"
  | JObject "(string \<times> json) list"

record world =
  fs :: "string \<Rightarrow> node option"
  stat_refused :: "string \<Rightarrow> oserror option"
  open_refused :: "string \<Rightarrow> oserror option"
  capacity :: "string \<Rightarrow> (nat \<times> oserror) option"
  home_dir :: string
  clock :: string

text \<open>
  \<open>stat_refused p\<close> is the error with which the system refuses to examine \<open>p\<close>, if it does
  (a name too long, a directory on the way that may not be searched); \<open>open_refused p\<close> the
  one with which it refuses to open \<open>p\<close> for writing (a missing parent directory, a
  permission); \<open>capacity p = Some (n, e)\<close> says that it takes \<open>n\<close> bytes written to \<open>p\<close> and
  refuses more with \<open>e\<close> (a full disk).  \<open>home_dir\<close> is \<open>str(Path.home())\<close>; \<open>clock\<close> is what
  \<open>datetime.now().strftime("%Y%m%d-%H%M%S")\<close> returns.
\<close>

type_synonym tarfile = "(string \<times> string) list"

record platform =
  joinpath :: "string \<Rightarrow> string \<Rightarrow> string"
  md5 :: "byte list \<Rightarrow> 128 word"
  targz :: "(string \<Rightarrow> node option) \<Rightarrow> tarfile \<Rightarrow> bool \<Rightarrow> byte list"
  json_dump :: "json \<Rightarrow> byte list"
  json_load :: "byte list \<Rightarrow> string + json"

text \<open>
  \<open>joinpath r ext\<close> is \<open>Path(r) / ext\<close>.  \<open>md5\<close> is the MD5 digest of a byte string, read
  as a 128-bit number (first digest byte most significant).  \<open>targz fs members closed\<close> is
  the content \<open>tarfile\<close> leaves in its output file after the members (source path, archive
  name) were added, \<open>closed\<close> telling whether the archive was finished normally.
  \<open>json_dump\<close> is \<open>json.dump(_, f, indent=4)\<close>; \<open>json_load\<close> is \<open>json.load\<close>, \<open>Inl msg\<close>
  when it raises a \<open>ValueError\<close> with text \<open>msg\<close>.
\<close>

subsection \<open>The text of an exception\<close>

definition sq :: string where
  "sq = [CHR 0x27]"

definition hexchar :: "nat \<Rightarrow> char" where
  "hexchar n = ''0123456789abcdef'' ! (n mod 16)"

fun show_nat :: "nat \<Rightarrow> string" where
  "show_nat n =
     (if n < 10 then [''0123456789'' ! n]
      else show_nat (n div 10) @ [''0123456789'' ! (n mod 10)])"

declare show_nat.simps [simp del]

text \<open>
  \<open>repr\<close> of a string: in double quotes when it holds a single quote and no double one, in
  single quotes otherwise; the quote in use and the backslash are escaped, tab, newline and
  return are written \<open>\t\<close>, \<open>\n\<close>, \<open>\r\<close>, and the other characters that are not printable
  (below 32, from 127 to 160, and 173) as \<open>\xNN\<close>.
\<close>

definition isprintable :: "char \<Rightarrow> bool" where
  "isprintable c =
     (let n = of_char c :: nat
      in \<not> (n < 32 \<or> (127 \<le> n \<and> n \<le> 160) \<or> n = 173))"

definition repr_char :: "char \<Rightarrow> char \<Rightarrow> string" where
  "repr_char q c =
     (if c = q \<or> c = CHR 0x5C then [CHR 0x5C, c]
      else if c = CHR 0x09 then [CHR 0x5C, CHR ''t'']
      else if c = CHR 0x0A then [CHR 0x5C, CHR ''n'']
      else if c = CHR 0x0D then [CHR 0x5C, CHR ''r'']
      else if \<not> isprintable c
        then [CHR 0x5C, CHR ''x'', hexchar (of_char c div 16), hexchar (of_char c)]
      else [c])"

definition py_repr :: "string \<Rightarrow> string" where
  "py_repr s =
     (let q = (if CHR 0x27 \<in> set s \<and> CHR 0x22 \<notin> set s then CHR 0x22 else CHR 0x27)
      in [q] @ concat (map (repr_char q) s) @ [q])"

text \<open>
  \<open>str(exc)\<close>; for an \<open>OSError\<close> it is \<open>[Errno n] strerror\<close>, followed by a colon and
  \<open>repr(filename)\<close> when there is a file name.
\<close>

definition str_exc :: "error \<Rightarrow> string" where
  "str_exc e =
     (case e of
        ArchiveException m \<Rightarrow> m
      | ConfigError m \<Rightarrow> m
      | OSError (OSErr n s f) \<Rightarrow>
          ''[Errno '' @ show_nat n @ ''] '' @ s
            @ (case f of None \<Rightarrow> [] | Some name \<Rightarrow> '': '' @ py_repr name)
      | TypeError m \<Rightarrow> m
      | ValueError m \<Rightarrow> m)"

text \<open>\<open>class ConfigError(OSError)\<close>: a \<open>ConfigError\<close> is an \<open>OSError\<close>.\<close>

definition is_OSError :: "error \<Rightarrow> bool" where
  "is_OSError e = (case e of ConfigError _ \<Rightarrow> True | OSError _ \<Rightarrow> True | _ \<Rightarrow> False)"

definition is_ConfigError :: "error \<Rightarrow> bool" where
  "is_ConfigError e = (case e of ConfigError _ \<Rightarrow> True | _ \<Rightarrow> False)"

subsection \<open>Files\<close>

text \<open>
  \<open>Path(p).stat()\<close> raises when the system refuses and when nothing is there.
  \<open>Path(p).is_dir()\<close> and \<open>Path(p).is_file()\<close> call it and answer \<open>False\<close> for the errors
  \<open>pathlib\<close> ignores (\<open>ENOENT\<close>, \<open>ENOTDIR\<close>, \<open>EBADF\<close>, \<open>ELOOP\<close>); every other \<open>OSError\<close> they
  raise again.
\<close>

definition path_stat :: "world \<Rightarrow> string \<Rightarrow> oserror + node" where
  "path_stat w p =
     (case stat_refused w p of
        Some e \<Rightarrow> Inl e
      | None \<Rightarrow>
          (case fs w p of
             None \<Rightarrow> Inl (OSErr 2 ''No such file or directory'' (Some p))
           | Some n \<Rightarrow> Inr n))"

definition ignore_error :: "oserror \<Rightarrow> bool" where
  "ignore_error e = (errno e \<in> set [2, 20, 9, 40])"

definition path_is_dir :: "world \<Rightarrow> string \<Rightarrow> error + bool" where
  "path_is_dir w p =
     (case path_stat w p of
        Inr n \<Rightarrow> Inr (n = Dir)
      | Inl e \<Rightarrow> if \<not> ignore_error e then Inl (OSError e) else Inr False)"

definition path_is_file :: "world \<Rightarrow> string \<Rightarrow> error + bool" where
  "path_is_file w p =
     (case path_stat w p of
        Inr n \<Rightarrow> Inr (case n of File _ \<Rightarrow> True | Dir \<Rightarrow> False)
      | Inl e \<Rightarrow> if \<not> ignore_error e then Inl (OSError e) else Inr False)"

record rfile =
  content :: "byte list"
  pos :: nat

definition open_rb :: "world \<Rightarrow> string \<Rightarrow> error + rfile" where
  "open_rb w name =
     (case fs w name of
        None \<Rightarrow> Inl (OSError (OSErr 2 ''No such file or directory'' (Some name)))
      | Some Dir \<Rightarrow> Inl (OSError (OSErr 21 ''Is a directory'' (Some name)))
      | Some (File bs) \<Rightarrow> Inr \<lparr>content = bs, pos = 0\<rparr>)"

definition fread :: "rfile \<Rightarrow> nat \<Rightarrow> byte list \<times> rfile" where
  "fread f n =
     (let chunk = take n (drop (pos f) (content f))
      in (chunk, f\<lparr>pos := pos f + length chunk\<rparr>))"

text \<open>Opening for writing creates the file or truncates it.\<close>

definition open_w :: "world \<Rightarrow> string \<Rightarrow> error + world" where
  "open_w w name =
     (case fs w name of
        Some Dir \<Rightarrow> Inl (OSError (OSErr 21 ''Is a directory'' (Some name)))
      | _ \<Rightarrow>
          (case open_refused w name of
             Some e \<Rightarrow> Inl (OSError e)
           | None \<Rightarrow> Inr (w\<lparr>fs := (fs w)(name \<mapsto> File [])\<rparr>)))"

text \<open>
  Writing \<open>bs\<close> to the open file and closing it.  When the system takes fewer bytes than
  \<open>bs\<close> has, the file is left with those and the error is raised.
\<close>

definition fwrite :: "world \<Rightarrow> string \<Rightarrow> byte list \<Rightarrow> world \<times> (error + unit)" where
  "fwrite w name bs =
     (case capacity w name of
        None \<Rightarrow> (w\<lparr>fs := (fs w)(name \<mapsto> File bs)\<rparr>, Inr ())
      | Some (n, e) \<Rightarrow>
          if n < length bs
          then (w\<lparr>fs := (fs w)(name \<mapsto> File (take n bs))\<rparr>, Inl (OSError e))
          else (w\<lparr>fs := (fs w)(name \<mapsto> File bs)\<rparr>, Inr ()))"

subsection \<open>hashlib\<close>

text \<open>
  A \<open>hashlib.md5()\<close> object is the bytes fed to it so far (\<open>update(a); update(b)\<close> is
  \<open>update(a + b)\<close>); \<open>hexdigest\<close> prints the 16 digest bytes as 32 lower-case hex digits.
\<close>

definition md5_new :: "byte list" where
  "md5_new = []"

definition md5_update :: "byte list \<Rightarrow> byte list \<Rightarrow> byte list" where
  "md5_update h chunk = h @ chunk"

definition hex128 :: "128 word \<Rightarrow> string" where
  "hex128 d = map (\<lambda>i. hexchar (unat (drop_bit (4 * (31 - i)) d))) [0..<32]"

definition md5_hexdigest :: "platform \<Rightarrow> byte list \<Rightarrow> string" where
  "md5_hexdigest P h = hex128 (md5 P h)"

section \<open>archive.py\<close>

record archive =
  root :: string
  items :: "string list"
  base_name :: string
  packed :: bool
  timestamp :: string

definition is_valid_dir :: "world \<Rightarrow> string \<Rightarrow> error + bool" where
  "is_valid_dir w directory = path_is_dir w directory"

definition is_valid_file :: "world \<Rightarrow> string \<Rightarrow> error + bool" where
  "is_valid_file w fname = path_is_file w fname"

text \<open>\<open>is_valid_dir(item) or is_valid_file(item)\<close>: the second is asked when the first says no.\<close>

definition is_valid_item :: "world \<Rightarrow> string \<Rightarrow> error + bool" where
  "is_valid_item w item =
     (case is_valid_dir w item of
        Inl e \<Rightarrow> Inl e
      | Inr d \<Rightarrow> if d then Inr True else is_valid_file w item)"

definition join_path :: "platform \<Rightarrow> world \<Rightarrow> string \<Rightarrow> string \<Rightarrow> error + string option" where
  "join_path P w r ext =
     (let full = joinpath P r ext
      in case is_valid_item w full of
           Inl e \<Rightarrow> Inl e
         | Inr v \<Rightarrow> if \<not> v then Inr None else Inr (Some full))"

definition is_packed :: "archive \<Rightarrow> bool" where
  "is_packed a = packed a"

definition get_root :: "archive \<Rightarrow> string" where
  "get_root a = root a"

definition get_items :: "archive \<Rightarrow> string list" where
  "get_items a = items a"

definition get_name :: "archive \<Rightarrow> bool \<Rightarrow> string" where
  "get_name a pk =
     (let extension = (if pk then ''.tgz'' else ''.tar'')
      in base_name a @ ''-'' @ timestamp a @ extension)"

text \<open>
  \<open>_set_root\<close>, \<open>_set_items\<close> and \<open>_set_name\<close> assign one attribute each; the model returns
  the object updated.  \<open>_set_items\<close> appends to the list the object already holds; when a
  check raises, it leaves the object with what it had appended, which the model returns
  with the exception.
\<close>

definition set_root :: "world \<Rightarrow> archive \<Rightarrow> string \<Rightarrow> error + archive" where
  "set_root w a r =
     (case is_valid_dir w r of
        Inl e \<Rightarrow> Inl e
      | Inr d \<Rightarrow>
          if \<not> d
          then Inl (ArchiveException (sq @ ''root directory'' @ sq @ '' provided is not valid.''))
          else Inr (a\<lparr>root := r\<rparr>))"

fun set_items ::
  "platform \<Rightarrow> world \<Rightarrow> archive \<Rightarrow> string list \<Rightarrow> (error \<times> archive) + archive" where
  "set_items P w a [] = Inr a"
| "set_items P w a (item # rest) =
     (case is_valid_item w item of
        Inl e \<Rightarrow> Inl (e, a)
      | Inr v \<Rightarrow>
          if v then set_items P w (a\<lparr>items := items a @ [item]\<rparr>) rest
          else
            (let alt_item = joinpath P (root a) item
             in case is_valid_item w alt_item of
                  Inl e \<Rightarrow> Inl (e, a)
                | Inr v' \<Rightarrow>
                    if v' then set_items P w (a\<lparr>items := items a @ [item]\<rparr>) rest
                    else set_items P w a rest))"

text \<open>
  \<open>str.strip()\<close> removes the characters for which \<open>str.isspace\<close> holds from both ends; below
  256 these are the code points 9 to 13, 28 to 32, 133 and 160.
\<close>

definition isspace :: "char \<Rightarrow> bool" where
  "isspace c = (of_char c \<in> set [9, 10, 11, 12, 13, 28, 29, 30, 31, 32, 133, 160 :: nat])"

definition strip :: "string \<Rightarrow> string" where
  "strip s = rev (dropWhile isspace (rev (dropWhile isspace s)))"

definition set_name :: "archive \<Rightarrow> string \<Rightarrow> archive" where
  "set_name a name =
     (let name' = (if strip name = [] then ''Archive'' else name)
      in a\<lparr>base_name := strip name'\<rparr>)"

text \<open>
  \<open>__init__\<close>: the attributes of the fresh object are unset until assigned; \<open>blank\<close> stands
  for that object, and every field of it is assigned before \<open>__init__\<close> returns.  An
  exception leaves no object.
\<close>

definition blank :: archive where
  "blank = \<lparr>root = [], items = [], base_name = [], packed = False, timestamp = []\<rparr>"

definition Archive_init ::
  "platform \<Rightarrow> world \<Rightarrow> string \<Rightarrow> string list \<Rightarrow> string \<Rightarrow> bool \<Rightarrow> error + archive" where
  "Archive_init P w froot fitems bname pk =
     (case set_root w blank froot of
        Inl e \<Rightarrow> Inl e
      | Inr a1 \<Rightarrow>
          (let a2 = a1\<lparr>items := []\<rparr>
           in case set_items P w a2 fitems of
                Inl (e, _) \<Rightarrow> Inl e
              | Inr a3 \<Rightarrow>
                  (let a4 = set_name a3 bname;
                       a5 = a4\<lparr>packed := pk\<rparr>
                   in Inr (a5\<lparr>timestamp := clock w\<rparr>))))"

function md5_loop :: "rfile \<Rightarrow> byte list \<Rightarrow> byte list \<Rightarrow> byte list" where
  "md5_loop f fhash chunk =
     (if chunk \<noteq> []
      then (case fread f 8192 of (chunk', f') \<Rightarrow> md5_loop f' (md5_update fhash chunk) chunk')
      else fhash)"
  by pat_completeness auto
termination
  by (relation "measure (\<lambda>(f, fhash, chunk). length chunk + (length (content f) - pos f))")
     (auto simp: fread_def Let_def min_def neq_Nil_conv)

declare md5_loop.simps [simp del]

definition get_md5 :: "platform \<Rightarrow> world \<Rightarrow> archive \<Rightarrow> error + string" where
  "get_md5 P w a =
     (if \<not> is_packed a
      then Inl (ArchiveException ''Archive needs to be packed before generating md5sum.'')
      else
        (case open_rb w (get_name a True) of
           Inl e \<Rightarrow> Inl e
         | Inr f \<Rightarrow>
             (case fread f 8192 of
                (chunk, f') \<Rightarrow> Inr (md5_hexdigest P (md5_loop f' md5_new chunk)))))"

text \<open>
  \<open>TarFile.add(name, arcname)\<close> starts with \<open>os.path.abspath(name)\<close>, which raises
  \<open>TypeError\<close> when \<open>name\<close> is \<open>None\<close>; otherwise the member is added (a member that
  exists can be read).  A \<open>tarfile\<close> is the list of the members added so far.
\<close>

definition tar_add :: "tarfile \<Rightarrow> string option \<Rightarrow> string \<Rightarrow> error + tarfile" where
  "tar_add tar name arcname =
     (case name of
        None \<Rightarrow> Inl (TypeError ''expected str, bytes or os.PathLike object, not NoneType'')
      | Some n \<Rightarrow> Inr (tar @ [(n, arcname)]))"

text \<open>
  The loop of \<open>pack\<close>.  It stops at the first exception, which it returns with the members
  added before it.
\<close>

fun pack_items ::
  "platform \<Rightarrow> world \<Rightarrow> archive \<Rightarrow> tarfile \<Rightarrow> string list \<Rightarrow> (error \<times> tarfile) + tarfile" where
  "pack_items P w a tar [] = Inr tar"
| "pack_items P w a tar (item # rest) =
     (case join_path P w (get_root a) item of
        Inl e \<Rightarrow> Inl (e, tar)
      | Inr name \<Rightarrow>
          (case tar_add tar name item of
             Inl e \<Rightarrow> Inl (e, tar)
           | Inr tar' \<Rightarrow> pack_items P w a tar' rest))"

text \<open>
  \<open>pack\<close> opens the output file (which creates it), adds the members and closes it; the
  flag is set after the \<open>with\<close> block, so only when no exception left it.  When the loop
  raised, the file is closed with what was written; an error of the system while writing
  or closing is the one that leaves the block.  The result is the world after the call and
  either the exception or the object updated.
\<close>

definition pack :: "platform \<Rightarrow> world \<Rightarrow> archive \<Rightarrow> world \<times> (error + archive)" where
  "pack P w a =
     (let name = get_name a True
      in case open_w w name of
           Inl e \<Rightarrow> (w, Inl e)
         | Inr w1 \<Rightarrow>
             (case pack_items P w1 a [] (get_items a) of
                Inl (e, tar) \<Rightarrow>
                  (case fwrite w1 name (targz P (fs w1) tar False) of
                     (w2, Inl oe) \<Rightarrow> (w2, Inl oe)
                   | (w2, Inr u) \<Rightarrow> (w2, Inl e))
              | Inr tar \<Rightarrow>
                  (case fwrite w1 name (targz P (fs w1) tar True) of
                     (w2, Inl oe) \<Rightarrow> (w2, Inl oe)
                   | (w2, Inr u) \<Rightarrow> (w2, Inr (a\<lparr>packed := True\<rparr>)))))"

text \<open>
  The methods of an \<open>Archive\<close> object as calls, and what a call leaves behind: the world
  and the object after it, whether it returned or raised (an exception leaves the object
  as the statements before it made it).  The getters and \<open>get_md5\<close> assign nothing.
\<close>

datatype call =
    Is_packed
  | Get_root
  | Get_items
  | Get_name bool
  | Get_md5
  | Set_root string
  | Set_items "string list"
  | Set_name string
  | Pack

definition exec :: "platform \<Rightarrow> world \<Rightarrow> archive \<Rightarrow> call \<Rightarrow> world \<times> archive" where
  "exec P w a c =
     (case c of
        Set_root r \<Rightarrow> (case set_root w a r of Inl e \<Rightarrow> (w, a) | Inr a' \<Rightarrow> (w, a'))
      | Set_items xs \<Rightarrow> (case set_items P w a xs of Inl (e, a') \<Rightarrow> (w, a') | Inr a' \<Rightarrow> (w, a'))
      | Set_name n \<Rightarrow> (w, set_name a n)
      | Pack \<Rightarrow> (case pack P w a of (w', Inl e) \<Rightarrow> (w', a) | (w', Inr a') \<Rightarrow> (w', a'))
      | _ \<Rightarrow> (w, a))"

text \<open>
  A history of an object: each call runs in the world of its moment, which anything may
  have changed since the call before.
\<close>

fun run :: "platform \<Rightarrow> archive \<Rightarrow> (world \<times> call) list \<Rightarrow> archive" where
  "run P a [] = a"
| "run P a ((w, c) # rest) = run P (snd (exec P w a c)) rest"

text \<open>The digest of a whole byte string in one pass: \<open>hashlib.md5(bs).hexdigest()\<close>.\<close>

definition whole_file_md5 :: "platform \<Rightarrow> byte list \<Rightarrow> string" where
  "whole_file_md5 P bs = md5_hexdigest P (md5_update md5_new bs)"



section \<open>bak.py\<close>

record args =
  use :: bool
  create :: bool
  silent :: bool
  config :: string

text \<open>
  \<open>nprint\<close> prints one line unless the global \<open>SILENT_OUTPUT\<close> is set; the lines printed
  so far are passed along.
\<close>

definition nprint :: "bool \<Rightarrow> string list \<Rightarrow> string \<Rightarrow> string list" where
  "nprint silent_output out msg = (if \<not> silent_output then out @ [msg] else out)"

text \<open>
  A \<open>try\<close> block is the value of its body, an exception or a result, with the world the
  body left; the \<open>except OSError\<close> clause then rewraps the exceptions it matches.
  \<open>load_config\<close> reads the file as text; a content that does not decode is among those
  \<open>json_load\<close> rejects (\<open>UnicodeDecodeError\<close> is a \<open>ValueError\<close> too).
\<close>

definition create_config :: "platform \<Rightarrow> world \<Rightarrow> string \<Rightarrow> world \<times> (error + unit)" where
  "create_config P w fname =
     (let home = home_dir w;
          config = JObject [(''root'', JString home),
                            (''files'', JArray [JString ''pictures'',
                                                JString ''videos/funny_vid.mp4''])];
          body =
            (case path_is_file w fname of
               Inl e \<Rightarrow> (w, Inl e)
             | Inr exists \<Rightarrow>
                 if exists
                 then (w, Inl (ConfigError ''File already exists.''))
                 else
                   (case open_w w fname of
                      Inl e \<Rightarrow> (w, Inl e)
                    | Inr w1 \<Rightarrow> fwrite w1 fname (json_dump P config)))
      in case body of
           (w', Inl exc) \<Rightarrow>
             if is_OSError exc
             then (w', Inl (ConfigError
                    (''Could not create '' @ sq @ fname @ sq @ '': '' @ str_exc exc)))
             else (w', Inl exc)
         | (w', Inr u) \<Rightarrow> (w', Inr u))"

definition load_config :: "platform \<Rightarrow> world \<Rightarrow> string \<Rightarrow> error + json" where
  "load_config P w fname =
     (let body =
            (case path_is_file w fname of
               Inl e \<Rightarrow> Inl e
             | Inr exists \<Rightarrow>
                 if \<not> exists
                 then Inl (ConfigError
                        ''Configuration provided either does not exist or it is not a file.'')
                 else
                   (case open_rb w fname of
                      Inl e \<Rightarrow> Inl e
                    | Inr f \<Rightarrow>
                        (case json_load P (content f) of
                           Inl msg \<Rightarrow> Inl (ValueError msg)
                         | Inr data \<Rightarrow> Inr data)))
      in case body of
           Inl exc \<Rightarrow>
             if is_OSError exc
             then Inl (ConfigError
                    (''Could not load '' @ sq @ fname @ sq @ '': '' @ str_exc exc))
             else Inl exc
         | Inr data \<Rightarrow> Inr data)"

text \<open>
  What a run of \<open>main\<close> leaves: the argument of \<open>sys.exit\<close> (\<open>None\<close> when \<open>main\<close> returns
  without calling it), the lines printed, and the world.
\<close>

record outcome =
  exit_code :: "int option"
  stdout :: "string list"
  world_after :: world

definition on_error :: "bool \<Rightarrow> world \<Rightarrow> error \<Rightarrow> outcome" where
  "on_error silent_output w exc =
     (if is_ConfigError exc
      then \<lparr>exit_code = Some (- 1),
            stdout = nprint silent_output [] (str_exc exc),
            world_after = w\<rparr>
      else \<lparr>exit_code = Some (- 1),
            stdout = nprint silent_output []
              (''Unknown error occurred while loading or creating configuration a file: ''
               @ str_exc exc),
            world_after = w\<rparr>)"

definition main :: "platform \<Rightarrow> world \<Rightarrow> args \<Rightarrow> outcome" where
  "main P w ar =
     (let silent_output = silent ar;
          config_name = config ar
      in if use ar
         then
           (case load_config P w config_name of
              Inl exc \<Rightarrow> on_error silent_output w exc
            | Inr data \<Rightarrow> \<lparr>exit_code = None, stdout = [], world_after = w\<rparr>)
         else
           (case create_config P w config_name of
              (w', Inl exc) \<Rightarrow> on_error silent_output w' exc
            | (w', Inr u) \<Rightarrow>
                \<lparr>exit_code = Some 0,
                 stdout = nprint silent_output [] (''Created '' @ sq @ config_name @ sq @ ''.''),
                 world_after = w'\<rparr>))"

section \<open>A concrete machine\<close>

text \<open>
  A small platform and two worlds on which the definitions are evaluated.  The join is
  the one \<open>pathlib\<close> computes for a root without a trailing slash and a relative item.
\<close>

definition example_config :: json where
  "example_config = JObject [(''root'', JString ''/tmp/x''), (''files'', JArray [JString ''notes.txt''])]"

definition P0 :: platform where
  "P0 = \<lparr>joinpath = (\<lambda>r ext. r @ ''/'' @ ext),
         md5 = (\<lambda>bs. word_of_nat (length bs)),
         targz = (\<lambda>f tar closed. map (\<lambda>m. word_of_nat (length (snd m))) tar),
         json_dump = (\<lambda>j. [1, 2, 3]),
         json_load = (\<lambda>bs. if bs = [1, 2, 3] then Inr example_config else Inl ''Expecting value'')\<rparr>"

text \<open>
  In \<open>world0\<close> the working directory holds \<open>notes.txt\<close> and \<open>cfg.json\<close>; \<open>/tmp/x\<close> is a
  directory that holds \<open>pics\<close>, \<open>a.txt\<close> and \<open>sub/a.txt\<close>, but neither \<open>notes.txt\<close> nor
  \<open>b.txt\<close>; there is no directory \<open>/nodir\<close>.  A path of more than 255 characters is too
  long a name for the system, and the device behind \<open>full.json\<close> takes no byte.  \<open>world1\<close>
  also holds an archive file of 20000 bytes.
\<close>

definition long_name :: string where
  "long_name = replicate 300 CHR ''a''"

definition too_long :: "string \<Rightarrow> oserror option" where
  "too_long p = (if 255 < length p then Some (OSErr 36 ''File name too long'' (Some p)) else None)"

definition world0 :: world where
  "world0 =
     \<lparr>fs = [''/tmp/x'' \<mapsto> Dir, ''/tmp/x/pics'' \<mapsto> Dir, ''/tmp/x/a.txt'' \<mapsto> File [1],
            ''/tmp/x/sub'' \<mapsto> Dir, ''/tmp/x/sub/a.txt'' \<mapsto> File [2],
            ''notes.txt'' \<mapsto> File [7, 8], ''cfg.json'' \<mapsto> File [1, 2, 3]],
      stat_refused = too_long,
      open_refused =
        [''/nodir/cfg.json'' \<mapsto> OSErr 2 ''No such file or directory'' (Some ''/nodir/cfg.json'')],
      capacity = [''full.json'' \<mapsto> (0, OSErr 28 ''No space left on device'' None)],
      home_dir = ''/home/u'',
      clock = ''20240101-120000''\<rparr>"

definition world1 :: world where
  "world1 = world0\<lparr>fs := (fs world0)(''bk-20240101-120000.tgz'' \<mapsto> File (replicate 20000 7))\<rparr>"

text \<open>
  Three objects as \<open>__init__\<close> makes them in \<open>world0\<close>: \<open>arch0\<close> with \<open>packed=True\<close>,
  \<open>arch1\<close> with the default, \<open>arch2\<close> with an item that exists in the working directory
  but not under the root.
\<close>

definition arch0 :: archive where
  "arch0 = \<lparr>root = ''/tmp/x'', items = [''pics''], base_name = ''bk'', packed = True,
             timestamp = ''20240101-120000''\<rparr>"

definition arch1 :: archive where
  "arch1 = \<lparr>root = ''/tmp/x'', items = [''pics'', ''a.txt''], base_name = ''bk'',
             packed = False, timestamp = ''20240101-120000''\<rparr>"

definition arch2 :: archive where
  "arch2 = \<lparr>root = ''/tmp/x'', items = [''pics'', ''notes.txt''], base_name = ''bk'',
             packed = False, timestamp = ''20240101-120000''\<rparr>"

section \<open>Reading a file in chunks\<close>

lemma take_drop_length: "take n ys @ drop (length (take n ys)) ys = ys"
  by (cases "n \<le> length ys") (simp_all add: min_def)

text \<open>What \<open>read\<close> returns and what is left after it make up what was left before.\<close>

lemma fread_rest:
  assumes "fread f n = (c, f')"
  shows "c @ drop (pos f') (content f') = drop (pos f) (content f)"
proof -
  from assms have c: "c = take n (drop (pos f) (content f))"
    and f': "content f' = content f" "pos f' = pos f + length c"
    by (auto simp: fread_def Let_def)
  have "drop (pos f') (content f') = drop (length c) (drop (pos f) (content f))"
    by (simp add: f' add.commute)
  then show ?thesis
    unfolding c by (simp only: take_drop_length)
qed

text \<open>An empty chunk means the end of the file.\<close>

lemma fread_empty:
  assumes "fread f n = ([], f')" and "0 < n"
  shows "length (content f') \<le> pos f'"
  using assms by (auto simp: fread_def Let_def)

text \<open>
  The loop invariant: the hash object holds what was read before the current chunk, so at
  the end it holds all of it.
\<close>

lemma md5_loop_all:
  "(chunk = [] \<Longrightarrow> length (content f) \<le> pos f) \<Longrightarrow>
   md5_loop f h chunk = h @ chunk @ drop (pos f) (content f)"
proof (induction f h chunk rule: md5_loop.induct)
  case (1 f fhash chunk)
  show ?case
  proof (cases "chunk = []")
    case True
    with "1.prems" show ?thesis by (subst md5_loop.simps) simp
  next
    case False
    obtain c' f' where r: "fread f 8192 = (c', f')" by (cases "fread f 8192")
    have "c' = [] \<Longrightarrow> length (content f') \<le> pos f'"
      using fread_empty[of f 8192 f'] r by simp
    from "1.IH"[OF False r[symmetric] this]
    have "md5_loop f' (md5_update fhash chunk) c' = fhash @ chunk @ drop (pos f) (content f)"
      using fread_rest[OF r] by (simp add: md5_update_def)
    then show ?thesis
      using False r by (subst md5_loop.simps) simp
  qed
qed

lemma md5_loop_open:
  assumes "fread \<lparr>content = bs, pos = 0\<rparr> 8192 = (c, f')"
  shows "md5_loop f' md5_new c = bs"
proof -
  have "c = [] \<Longrightarrow> length (content f') \<le> pos f'"
    using fread_empty[of "\<lparr>content = bs, pos = 0\<rparr>" 8192 f'] assms by simp
  then have "md5_loop f' md5_new c = md5_new @ c @ drop (pos f') (content f')"
    by (rule md5_loop_all)
  also have "\<dots> = bs"
    using fread_rest[OF assms] by (simp add: md5_new_def)
  finally show ?thesis .
qed

text \<open>
  Claim C4: for every file content, the empty one included, the digest \<open>get_md5\<close> computes
  by reading chunks of 8192 bytes and feeding each to the MD5 object is the MD5 hex digest
  of the whole content hashed in one pass.
\<close>

theorem get_md5_whole_file:
  assumes "is_packed a" and "fs w (get_name a True) = Some (File bs)"
  shows "get_md5 P w a = Inr (whole_file_md5 P bs)"
proof -
  obtain c f' where r: "fread \<lparr>content = bs, pos = 0\<rparr> 8192 = (c, f')"
    by (cases "fread \<lparr>content = bs, pos = 0\<rparr> 8192")
  from md5_loop_open[OF r] assms r show ?thesis
    by (simp add: get_md5_def open_rb_def whole_file_md5_def md5_update_def md5_new_def)
qed

theorem get_md5_whole_file_witness:
  "is_packed arch0
   \<and> fs world1 (get_name arch0 True) = Some (File (replicate 20000 7))
   \<and> get_md5 P0 world1 arch0 = Inr (whole_file_md5 P0 (replicate 20000 7))"
proof -
  have p: "is_packed arch0"
    by (simp add: is_packed_def arch0_def)
  have f: "fs world1 (get_name arch0 True) = Some (File (replicate 20000 7))"
    by (simp add: world1_def get_name_def arch0_def)
  from p f get_md5_whole_file[OF p f] show ?thesis by simp
qed

section \<open>Construction\<close>

lemmas stat_simps =
  is_valid_dir_def is_valid_file_def is_valid_item_def path_is_dir_def path_is_file_def
  path_stat_def ignore_error_def

lemmas world_simps = stat_simps world0_def too_long_def P0_def

lemmas init_simps =
  Archive_init_def set_root_def set_name_def Let_def strip_def isspace_def blank_def



lemma path_is_file_error: "path_is_file w p = Inl e \<Longrightarrow> is_OSError e \<and> \<not> is_ConfigError e"
  by (auto simp: path_is_file_def is_OSError_def is_ConfigError_def split: sum.splits if_splits)


text \<open>\<open>_set_items\<close> assigns to \<open>items\<close> only, whether it returns or raises.\<close>

lemma set_items_fields:
  "set_items P w a cands = Inr b \<or> set_items P w a cands = Inl (e, b) \<Longrightarrow>
     root b = root a \<and> base_name b = base_name a \<and> packed b = packed a
     \<and> timestamp b = timestamp a"
proof (induction cands arbitrary: a)
  case Nil
  then show ?case by auto
next
  case (Cons c cands)
  let ?a' = "a\<lparr>items := items a @ [c]\<rparr>"
  from Cons.prems consider
      (stop) "b = a"
    | (keep) "set_items P w ?a' cands = Inr b \<or> set_items P w ?a' cands = Inl (e, b)"
    | (drop) "set_items P w a cands = Inr b \<or> set_items P w a cands = Inl (e, b)"
    by (auto simp: Let_def split: sum.splits if_splits)
  then show ?case
  proof cases
    case stop
    then show ?thesis by simp
  next
    case keep
    from Cons.IH[OF this] show ?thesis by simp
  next
    case drop
    from Cons.IH[OF this] show ?thesis .
  qed
qed




lemma strip_examples: "strip ''   '' = []" "strip ''Archive'' = ''Archive''"
  by (simp_all add: strip_def isspace_def)

text \<open>What \<open>__init__\<close> returns, when it returns.\<close>

lemma Archive_init_Inr:
  assumes "Archive_init P w r cands n pk = Inr a"
  shows "path_is_dir w r = Inr True"
    and "\<exists>b. set_items P w (blank\<lparr>root := r, items := []\<rparr>) cands = Inr b
          \<and> a = b\<lparr>base_name := (if strip n = [] then ''Archive'' else strip n),
                   packed := pk, timestamp := clock w\<rparr>"
  using assms
  by (auto simp: Archive_init_def set_root_def set_name_def Let_def is_valid_dir_def
      strip_examples split: sum.splits if_splits prod.splits)

lemma Archive_init_fields:
  assumes "Archive_init P w r cands n pk = Inr a"
  shows "root a = r \<and> base_name a = (if strip n = [] then ''Archive'' else strip n)
     \<and> timestamp a = clock w \<and> packed a = pk"
proof -
  from Archive_init_Inr(2)[OF assms] obtain b
    where b: "set_items P w (blank\<lparr>root := r, items := []\<rparr>) cands = Inr b"
      and a: "a = b\<lparr>base_name := (if strip n = [] then ''Archive'' else strip n),
                   packed := pk, timestamp := clock w\<rparr>"
    by blast
  from b have "root b = root (blank\<lparr>root := r, items := []\<rparr>)"
    using set_items_fields[of P w "blank\<lparr>root := r, items := []\<rparr>" cands b] by blast
  then show ?thesis by (simp add: a)
qed




lemma init_arch0: "Archive_init P0 world0 ''/tmp/x'' [''pics''] ''bk'' True = Inr arch0"
  by (simp add: init_simps world_simps arch0_def)

lemma init_arch1:
  "Archive_init P0 world0 ''/tmp/x'' [''pics'', ''b.txt'', ''a.txt''] '' bk'' False = Inr arch1"
  by (simp add: init_simps world_simps arch1_def)

lemma init_arch2:
  "Archive_init P0 world0 ''/tmp/x'' [''pics'', ''notes.txt''] ''bk'' False = Inr arch2"
  by (simp add: init_simps world_simps arch2_def)







text \<open>
  Claim C7: for every \<open>Archive\<close> and every flag, the output name is the base name, a
  hyphen, the timestamp, and \<open>.tgz\<close> when the flag is true, \<open>.tar\<close> otherwise.  The base
  name is the constructor's argument stripped of white space at both ends, or \<open>Archive\<close>
  when nothing is left; the timestamp is the one taken at construction.  So a blank name
  gives the name that \<open>Archive\<close> gives at the same timestamp, and the two names of one
  object differ in the extension only.
\<close>

theorem output_name:
  "(Archive_init P w r cands n pk = Inr a \<longrightarrow>
      get_name a flag =
        (if strip n = [] then ''Archive'' else strip n) @ ''-'' @ clock w
          @ (if flag then ''.tgz'' else ''.tar''))
   \<and> (Archive_init P w r cands ''   '' pk = Inr a \<and>
       Archive_init P' w' r' cands' ''Archive'' pk' = Inr b \<and> clock w' = clock w \<longrightarrow>
         get_name a flag = get_name b flag)
   \<and> (\<exists>stem. get_name a True = stem @ ''.tgz'' \<and> get_name a False = stem @ ''.tar'')"
proof (intro conjI impI)
  assume "Archive_init P w r cands n pk = Inr a"
  from Archive_init_fields[OF this] show "get_name a flag =
        (if strip n = [] then ''Archive'' else strip n) @ ''-'' @ clock w
          @ (if flag then ''.tgz'' else ''.tar'')"
    by (simp add: get_name_def)
next
  assume h: "Archive_init P w r cands ''   '' pk = Inr a \<and>
       Archive_init P' w' r' cands' ''Archive'' pk' = Inr b \<and> clock w' = clock w"
  with Archive_init_fields[of P w r cands "''   ''" pk a]
    Archive_init_fields[of P' w' r' cands' "''Archive''" pk' b] strip_examples
  show "get_name a flag = get_name b flag"
    by (simp add: get_name_def)
next
  show "\<exists>stem. get_name a True = stem @ ''.tgz'' \<and> get_name a False = stem @ ''.tar''"
    by (rule exI[of _ "base_name a @ ''-'' @ timestamp a"]) (simp add: get_name_def)
qed

theorem output_name_witness:
  "Archive_init P0 world0 ''/tmp/x'' [''pics'', ''b.txt'', ''a.txt''] '' bk'' False = Inr arch1
   \<and> get_name arch1 True = ''bk-20240101-120000.tgz''
   \<and> get_name arch1 False = ''bk-20240101-120000.tar''
   \<and> (\<exists>a b. Archive_init P0 world0 ''/tmp/x'' [] ''   '' False = Inr a
          \<and> Archive_init P0 world0 ''/tmp/x'' [''pics''] ''Archive'' True = Inr b
          \<and> get_name a True = get_name b True
          \<and> get_name a True = ''Archive-20240101-120000.tgz'')"
proof -
  have c: "Archive_init P0 world0 ''/tmp/x'' [''pics'', ''b.txt'', ''a.txt''] '' bk'' False
             = Inr arch1"
    by (rule init_arch1)
  have s: "strip '' bk'' = ''bk''" "clock world0 = ''20240101-120000''"
    by (simp_all add: strip_def isspace_def world0_def)
  obtain a where a: "Archive_init P0 world0 ''/tmp/x'' [] ''   '' False = Inr a"
    by (simp add: init_simps world_simps)
  obtain b where b: "Archive_init P0 world0 ''/tmp/x'' [''pics''] ''Archive'' True = Inr b"
    by (simp add: init_simps world_simps)
  have n: "get_name arch1 True = ''bk-20240101-120000.tgz''"
      "get_name arch1 False = ''bk-20240101-120000.tar''"
    using output_name[of P0 world0 "''/tmp/x''" "[''pics'', ''b.txt'', ''a.txt'']" "'' bk''"
        False arch1 _ P0 world0 "''/tmp/x''" "[]" True arch1] c s
    by simp_all
  note blank_name = output_name[of P0 world0 "''/tmp/x''" "[]" "''   ''" False a True
        P0 world0 "''/tmp/x''" "[''pics'']" True b]
  have "get_name a True = get_name b True"
    using blank_name a b by blast
  moreover have "get_name a True = ''Archive-20240101-120000.tgz''"
    using blank_name a by (simp add: s strip_examples)
  ultimately show ?thesis using c n a b by blast
qed

section \<open>Packing and the packed flag\<close>

text \<open>\<open>hexdigest\<close> prints 32 characters, each a digit or a letter from a to f.\<close>

lemma hexchar_lower: "hexchar n \<in> set ''0123456789abcdef''"
  unfolding hexchar_def by (rule nth_mem) simp

lemma hex128_shape:
  "length (hex128 d) = 32 \<and> list_all (\<lambda>c. c \<in> set ''0123456789abcdef'') (hex128 d)"
  unfolding hex128_def list_all_iff using hexchar_lower by auto

lemmas pack_simps =
  pack_def get_name_def open_w_def Let_def get_items_def get_root_def tar_add_def
  join_path_def fwrite_def

text \<open>A pack that returns has set the flag and left a file under the packed name.\<close>

lemma pack_success:
  "pack P w a = (w', Inr a') \<Longrightarrow>
     a' = a\<lparr>packed := True\<rparr> \<and> (\<exists>bs. fs w' (get_name a True) = Some (File bs))"
  by (auto simp: pack_def Let_def fwrite_def
      split: sum.splits prod.splits option.splits if_splits)

text \<open>A call that changes the flag is a pack that returned, on an object not yet packed.\<close>

lemma exec_packed:
  "packed (snd (exec P w a c)) \<noteq> packed a \<Longrightarrow>
     c = Pack \<and> \<not> packed a \<and>
     (\<exists>w'. pack P w a = (w', Inr (a\<lparr>packed := True\<rparr>))
           \<and> exec P w a c = (w', a\<lparr>packed := True\<rparr>))"
proof (cases c)
  case Pack
  assume ch: "packed (snd (exec P w a c)) \<noteq> packed a"
  obtain w' res where p: "pack P w a = (w', res)" by (cases "pack P w a")
  show ?thesis
  proof (cases res)
    case (Inl e)
    with p Pack ch show ?thesis by (simp add: exec_def)
  next
    case (Inr a')
    with p pack_success[of P w a w' a'] have "a' = a\<lparr>packed := True\<rparr>" by simp
    with p Inr Pack ch show ?thesis by (auto simp: exec_def)
  qed
next
  case (Set_items xs)
  assume ch: "packed (snd (exec P w a c)) \<noteq> packed a"
  obtain b e where "set_items P w a xs = Inr b \<or> set_items P w a xs = Inl (e, b)"
    by (cases "set_items P w a xs") auto
  then have "snd (exec P w a c) = b" and "packed b = packed a"
    using set_items_fields[of P w a xs b e] Set_items by (auto simp: exec_def)
  with ch show ?thesis by simp
qed (auto simp: exec_def set_root_def set_name_def Let_def split: if_splits sum.splits)

lemma exec_keeps_packed: "packed a \<Longrightarrow> packed (snd (exec P w a c))"
proof (rule ccontr)
  assume a: "packed a" and n: "\<not> packed (snd (exec P w a c))"
  then have "packed (snd (exec P w a c)) \<noteq> packed a" by simp
  from exec_packed[OF this] a show False by simp
qed

lemma exec_other: "c \<noteq> Pack \<Longrightarrow> packed (snd (exec P w a c)) = packed a"
proof (rule ccontr)
  assume c: "c \<noteq> Pack" and n: "packed (snd (exec P w a c)) \<noteq> packed a"
  from exec_packed[OF n] c show False by simp
qed

lemma run_keeps_packed: "packed a \<Longrightarrow> packed (run P a steps)"
proof (induction steps arbitrary: a)
  case Nil
  then show ?case by simp
next
  case (Cons s steps)
  obtain w c where s: "s = (w, c)" by (cases s)
  from Cons.prems have "packed (snd (exec P w a c))" by (rule exec_keeps_packed)
  then have "packed (run P (snd (exec P w a c)) steps)" by (rule Cons.IH)
  then show ?case by (simp add: s)
qed

lemma run_no_pack:
  "list_all (\<lambda>s. snd s \<noteq> Pack) steps \<Longrightarrow> packed (run P a steps) = packed a"
proof (induction steps arbitrary: a)
  case Nil
  then show ?case by simp
next
  case (Cons s steps)
  obtain w c where s: "s = (w, c)" by (cases s)
  from Cons.prems s have c: "c \<noteq> Pack" and r: "list_all (\<lambda>s. snd s \<noteq> Pack) steps"
    by simp_all
  have "packed (run P (snd (exec P w a c)) steps) = packed (snd (exec P w a c))"
    using r by (rule Cons.IH)
  also have "\<dots> = packed a" using c by (rule exec_other)
  finally show ?case by (simp add: s)
qed

lemma pack_arch1:
  "pack P0 world0 arch1 =
     (fst (fwrite world0 ''bk-20240101-120000.tgz'' [4, 5]), Inr (arch1\<lparr>packed := True\<rparr>))"
  by (simp add: pack_simps world_simps arch1_def)

text \<open>
  Claim C8: the packed flag is monotonic.  Once true it stays true through every history of
  method calls, in whatever worlds they run; and the only call that changes it at all is a
  \<open>pack\<close> that returns without an exception, which sets it to true.
\<close>

theorem packed_monotonic:
  "(packed a \<longrightarrow> packed (run P a steps))
   \<and> (packed (snd (exec P w a c)) \<noteq> packed a \<longrightarrow>
        c = Pack \<and> \<not> packed a \<and>
        (\<exists>w'. pack P w a = (w', Inr (a\<lparr>packed := True\<rparr>))
              \<and> exec P w a c = (w', a\<lparr>packed := True\<rparr>)))"
proof (rule conjI)
  show "packed a \<longrightarrow> packed (run P a steps)"
    by (rule impI) (rule run_keeps_packed)
  show "packed (snd (exec P w a c)) \<noteq> packed a \<longrightarrow>
        c = Pack \<and> \<not> packed a \<and>
        (\<exists>w'. pack P w a = (w', Inr (a\<lparr>packed := True\<rparr>))
              \<and> exec P w a c = (w', a\<lparr>packed := True\<rparr>))"
    by (rule impI) (rule exec_packed)
qed

theorem packed_monotonic_witness:
  "packed arch0
   \<and> packed (run P0 arch0 [(world0, Pack), (world1, Set_name ''x''), (world1, Get_md5),
                            (world0, Set_root ''/nowhere''), (world1, Pack)])
   \<and> packed (snd (exec P0 world0 arch1 Pack)) \<noteq> packed arch1
   \<and> \<not> packed arch1
   \<and> (\<exists>w'. pack P0 world0 arch1 = (w', Inr (arch1\<lparr>packed := True\<rparr>)))"
proof -
  have p: "packed arch0"
    by (simp add: arch0_def)
  have ch: "packed (snd (exec P0 world0 arch1 Pack)) \<noteq> packed arch1"
    by (simp add: exec_def pack_arch1) (simp add: arch1_def)
  from p ch
    packed_monotonic[of arch0 P0 "[(world0, Pack), (world1, Set_name ''x''), (world1, Get_md5),
                            (world0, Set_root ''/nowhere''), (world1, Pack)]" world0 Pack]
    packed_monotonic[of arch1 P0 "[]" world0 Pack]
  show ?thesis by blast
qed

text \<open>
  Claim C3 (as amended): for every \<open>Archive\<close> whose packed flag is false, \<open>get_md5\<close> fails
  with \<open>ArchiveException\<close>; that is the state of an object constructed with
  \<open>packed=False\<close>, the default, for as long as \<open>pack\<close> has not been called, whatever other
  methods were.  After a \<open>pack\<close> that returned, \<open>get_md5\<close> in the world it left succeeds and
  returns 32 characters, each a digit or a letter from a to f.  An object constructed with
  \<open>packed=True\<close> is not gated.
\<close>

theorem digest_gating:
  "(\<not> is_packed a \<longrightarrow>
      get_md5 P w a =
        Inl (ArchiveException ''Archive needs to be packed before generating md5sum.''))
   \<and> (Archive_init P w r cands n False = Inr a \<and> list_all (\<lambda>s. snd s \<noteq> Pack) steps \<longrightarrow>
        \<not> is_packed (run P a steps))
   \<and> (pack P w a = (w', Inr a') \<longrightarrow>
        (\<exists>d. get_md5 P w' a' = Inr d \<and> length d = 32
             \<and> list_all (\<lambda>c. c \<in> set ''0123456789abcdef'') d))"
proof (intro conjI impI)
  assume "\<not> is_packed a"
  then show "get_md5 P w a =
        Inl (ArchiveException ''Archive needs to be packed before generating md5sum.'')"
    by (simp add: get_md5_def)
next
  assume h: "Archive_init P w r cands n False = Inr a \<and> list_all (\<lambda>s. snd s \<noteq> Pack) steps"
  then have "packed a = False"
    using Archive_init_fields[of P w r cands n False a] by simp
  moreover from h have "packed (run P a steps) = packed a"
    using run_no_pack[of steps P a] by simp
  ultimately show "\<not> is_packed (run P a steps)"
    by (simp add: is_packed_def)
next
  assume p: "pack P w a = (w', Inr a')"
  from pack_success[OF p] obtain bs where a': "a' = a\<lparr>packed := True\<rparr>"
    and f: "fs w' (get_name a True) = Some (File bs)"
    by blast
  obtain c f' where rd: "fread \<lparr>content = bs, pos = 0\<rparr> 8192 = (c, f')"
    by (cases "fread \<lparr>content = bs, pos = 0\<rparr> 8192")
  have n: "get_name (a\<lparr>packed := True\<rparr>) True = get_name a True"
    by (simp add: get_name_def)
  have "get_md5 P w' a' = Inr (hex128 (md5 P bs))"
    using md5_loop_open[OF rd] f rd
    by (simp add: get_md5_def is_packed_def a' n open_rb_def md5_hexdigest_def)
  then show "\<exists>d. get_md5 P w' a' = Inr d \<and> length d = 32
             \<and> list_all (\<lambda>c. c \<in> set ''0123456789abcdef'') d"
    using hex128_shape[of "md5 P bs"] by simp
qed

theorem digest_gating_witness:
  "\<not> is_packed arch1
   \<and> get_md5 P0 world0 arch1 =
       Inl (ArchiveException ''Archive needs to be packed before generating md5sum.'')
   \<and> Archive_init P0 world0 ''/tmp/x'' [''pics'', ''b.txt'', ''a.txt''] '' bk'' False = Inr arch1
   \<and> list_all (\<lambda>s. snd s \<noteq> Pack) [(world0, Get_name True), (world1, Set_name ''y'')]
   \<and> \<not> is_packed (run P0 arch1 [(world0, Get_name True), (world1, Set_name ''y'')])
   \<and> (\<exists>w' a'. pack P0 world0 arch1 = (w', Inr a')
         \<and> (\<exists>d. get_md5 P0 w' a' = Inr d \<and> length d = 32
               \<and> list_all (\<lambda>c. c \<in> set ''0123456789abcdef'') d))"
proof -
  have u: "\<not> is_packed arch1"
    by (simp add: is_packed_def arch1_def)
  have l: "list_all (\<lambda>s. snd s \<noteq> Pack) [(world0, Get_name True), (world1, Set_name ''y'')]"
    by simp
  note g = digest_gating[of arch1 P0 world0 "''/tmp/x''" "[''pics'', ''b.txt'', ''a.txt'']"
      "'' bk''" "[(world0, Get_name True), (world1, Set_name ''y'')]"
      "fst (fwrite world0 ''bk-20240101-120000.tgz'' [4, 5])" "arch1\<lparr>packed := True\<rparr>"]
  from g u have 1: "get_md5 P0 world0 arch1 =
       Inl (ArchiveException ''Archive needs to be packed before generating md5sum.'')"
    by blast
  from g init_arch1 l
  have 2: "\<not> is_packed (run P0 arch1 [(world0, Get_name True), (world1, Set_name ''y'')])"
    by blast
  from g pack_arch1
  have 3: "\<exists>d. get_md5 P0 (fst (fwrite world0 ''bk-20240101-120000.tgz'' [4, 5]))
                (arch1\<lparr>packed := True\<rparr>) = Inr d \<and> length d = 32
               \<and> list_all (\<lambda>c. c \<in> set ''0123456789abcdef'') d"
    by blast
  from u 1 init_arch1 l 2 3 pack_arch1 show ?thesis by blast
qed

text \<open>
  Claim C3 as stated fails: \<open>arch0\<close> is the object \<open>__init__\<close> returns for \<open>packed=True\<close>;
  \<open>pack\<close> was never called on it, and \<open>get_md5\<close> does not raise \<open>ArchiveException\<close> but goes
  on to open the file, which is not there.
\<close>

theorem digest_gating_counterexample:
  "Archive_init P0 world0 ''/tmp/x'' [''pics''] ''bk'' True = Inr arch0
   \<and> get_md5 P0 world0 arch0 =
       Inl (OSError (OSErr 2 ''No such file or directory'' (Some ''bk-20240101-120000.tgz'')))"
  by (simp add: init_arch0) (simp add: get_md5_def is_packed_def arch0_def get_name_def
      open_rb_def world0_def)

section \<open>Members that do not resolve\<close>

text \<open>
  When an item of the object does not resolve under the root at the time of packing,
  \<open>join_path\<close> returns \<open>None\<close>, \<open>tar.add\<close> raises, and so does \<open>pack\<close>: it cannot return.
\<close>

lemma pack_items_unresolved:
  "item \<in> set its \<Longrightarrow> join_path P w (get_root a) item = Inr None \<Longrightarrow>
     \<exists>e tar'. pack_items P w a tar its = Inl (e, tar')"
proof (induction its arbitrary: tar)
  case Nil
  then show ?case by simp
next
  case (Cons x xs)
  show ?case
  proof (cases "join_path P w (get_root a) x")
    case (Inl e)
    then show ?thesis by simp
  next
    case (Inr name)
    show ?thesis
    proof (cases name)
      case None
      with Inr show ?thesis by (simp add: tar_add_def)
    next
      case (Some full)
      with Inr Cons.prems have "item \<in> set xs" by auto
      from Cons.IH[OF this Cons.prems(2)] Inr Some show ?thesis
        by (simp add: tar_add_def)
    qed
  qed
qed

theorem pack_raises_on_unresolved:
  assumes "open_w w (get_name a True) = Inr w1"
    and "item \<in> set (items a)"
    and "join_path P w1 (root a) item = Inr None"
  shows "\<exists>w' e. pack P w a = (w', Inl e)"
proof -
  from pack_items_unresolved[of item "get_items a" P w1 a "[]"] assms(2,3)
  obtain e tar' where "pack_items P w1 a [] (get_items a) = Inl (e, tar')"
    by (auto simp: get_items_def get_root_def)
  with assms(1) show ?thesis
    by (cases "fwrite w1 (get_name a True) (targz P (fs w1) tar' False)")
       (auto simp: pack_def Let_def split: sum.splits)
qed

theorem pack_raises_on_unresolved_witness:
  "open_w world0 (get_name arch2 True) = Inr (fst (fwrite world0 ''bk-20240101-120000.tgz'' []))
   \<and> ''notes.txt'' \<in> set (items arch2)
   \<and> join_path P0 (fst (fwrite world0 ''bk-20240101-120000.tgz'' [])) (root arch2) ''notes.txt''
       = Inr None
   \<and> (\<exists>w' e. pack P0 world0 arch2 = (w', Inl e))"
proof -
  have 1: "open_w world0 (get_name arch2 True)
             = Inr (fst (fwrite world0 ''bk-20240101-120000.tgz'' []))"
    by (simp add: open_w_def get_name_def arch2_def fwrite_def world0_def)
  have 2: "''notes.txt'' \<in> set (items arch2)"
    by (simp add: arch2_def)
  have 3: "join_path P0 (fst (fwrite world0 ''bk-20240101-120000.tgz'' [])) (root arch2)
             ''notes.txt'' = Inr None"
    by (simp add: join_path_def fwrite_def arch2_def world_simps)
  from 1 2 3 pack_raises_on_unresolved[OF 1 2 3] show ?thesis by simp
qed

text \<open>
  Claim C1 says that \<open>pack\<close> skips a member whose join with the root is not a valid item and
  never raises on it.  The code does not: \<open>arch2\<close> is what \<open>__init__\<close> returns for the root
  \<open>/tmp/x\<close> and the items \<open>pics\<close> and \<open>notes.txt\<close>, the latter kept because it exists
  in the working directory; it does not exist under the root, \<open>join_path\<close> returns \<open>None\<close>
  for it, and \<open>pack\<close> raises \<open>TypeError\<close>, leaving the flag unset.
\<close>

theorem pack_raises_on_arch2:
  "Archive_init P0 world0 ''/tmp/x'' [''pics'', ''notes.txt''] ''bk'' False = Inr arch2
   \<and> join_path P0 world0 (get_root arch2) ''notes.txt'' = Inr None
   \<and> snd (pack P0 world0 arch2) =
       Inl (TypeError ''expected str, bytes or os.PathLike object, not NoneType'')
   \<and> snd (exec P0 world0 arch2 Pack) = arch2"
proof -
  have 1: "join_path P0 world0 (get_root arch2) ''notes.txt'' = Inr None"
    by (simp add: join_path_def get_root_def arch2_def world_simps)
  have 2: "snd (pack P0 world0 arch2) =
       Inl (TypeError ''expected str, bytes or os.PathLike object, not NoneType'')"
    by (simp add: pack_simps world_simps arch2_def)
  then have "snd (exec P0 world0 arch2 Pack) = arch2"
    by (cases "pack P0 world0 arch2") (simp add: exec_def)
  with init_arch2 1 2 show ?thesis by simp
qed

section \<open>The configuration file\<close>

lemmas text_simps = str_exc_def py_repr_def repr_char_def isprintable_def Let_def sq_def

text \<open>A failing \<open>open\<close> or write raises an \<open>OSError\<close> of the system.\<close>

lemma open_w_error: "open_w w name = Inl e \<Longrightarrow> is_OSError e \<and> \<not> is_ConfigError e"
  by (auto simp: open_w_def is_OSError_def is_ConfigError_def split: option.splits node.splits)

lemma fwrite_error:
  "fwrite w name bs = (w', Inl e) \<Longrightarrow>
     is_OSError e \<and> \<not> is_ConfigError e \<and> fs w' name \<noteq> Some (File bs)"
  by (auto simp: fwrite_def is_OSError_def is_ConfigError_def split: option.splits if_splits)

lemma fwrite_done: "fwrite w name bs = (w', Inr u) \<Longrightarrow> fs w' name = Some (File bs)"
  by (auto simp: fwrite_def split: option.splits if_splits)

text \<open>
  Claim C10: \<open>ConfigError\<close> is an \<open>OSError\<close>, so the \<open>ConfigError\<close> that \<open>create_config\<close>
  raises in its own \<open>try\<close> block for an existing file is caught by its handler and wrapped:
  the caller sees the message \<open>Could not create '<fname>': File already exists.\<close>, not the
  bare one.  \<open>load_config\<close> wraps its own \<open>ConfigError\<close> the same way.
\<close>

theorem config_error_wrapped:
  "(path_is_file w fname = Inr True \<longrightarrow>
      create_config P w fname =
        (w, Inl (ConfigError
          (''Could not create '' @ sq @ fname @ sq @ '': File already exists.''))))
   \<and> (path_is_file w fname = Inr False \<longrightarrow>
      load_config P w fname =
        Inl (ConfigError (''Could not load '' @ sq @ fname @ sq
          @ '': Configuration provided either does not exist or it is not a file.'')))
   \<and> is_OSError (ConfigError m)"
  by (simp add: create_config_def load_config_def Let_def is_OSError_def str_exc_def)

theorem config_error_wrapped_witness:
  "path_is_file world0 ''cfg.json'' = Inr True
   \<and> create_config P0 world0 ''cfg.json'' =
        (world0, Inl (ConfigError
          (''Could not create '' @ sq @ ''cfg.json'' @ sq @ '': File already exists.'')))
   \<and> path_is_file world0 ''/tmp/x'' = Inr False
   \<and> load_config P0 world0 ''/tmp/x'' =
        Inl (ConfigError (''Could not load '' @ sq @ ''/tmp/x'' @ sq
          @ '': Configuration provided either does not exist or it is not a file.''))
   \<and> path_is_file world0 ''missing.json'' = Inr False
   \<and> load_config P0 world0 ''missing.json'' =
        Inl (ConfigError (''Could not load '' @ sq @ ''missing.json'' @ sq
          @ '': Configuration provided either does not exist or it is not a file.''))"
proof -
  have 1: "path_is_file world0 ''cfg.json'' = Inr True"
    and 2: "path_is_file world0 ''/tmp/x'' = Inr False"
    and 3: "path_is_file world0 ''missing.json'' = Inr False"
    by (simp_all add: world_simps)
  from 1 2 3
    config_error_wrapped[of world0 "''cfg.json''" P0]
    config_error_wrapped[of world0 "''/tmp/x''" P0]
    config_error_wrapped[of world0 "''missing.json''" P0]
  show ?thesis by blast
qed

text \<open>
  Claim C9 (as amended): when a regular file exists at the target path, \<open>create_config\<close>
  fails with a \<open>ConfigError\<close> (file already exists) and writes nothing.  When none exists
  and the check for it, the opening of the target or the writing raises an \<open>OSError\<close> (the
  name is too long, the target is a directory or its parent is missing, the disk is full),
  it fails with a \<open>ConfigError\<close> as well and leaves no template: nothing is written when
  the check or the opening failed, and less than the template when the writing did.
  Otherwise it writes the JSON text of a template whose \<open>root\<close> is the home directory and
  whose \<open>files\<close> are the two example entries.
\<close>

theorem create_config_cases:
  "(path_is_file w fname = Inr True \<longrightarrow>
      create_config P w fname =
        (w, Inl (ConfigError
          (''Could not create '' @ sq @ fname @ sq @ '': File already exists.''))))
   \<and> (path_is_file w fname = Inl e \<longrightarrow>
      create_config P w fname =
        (w, Inl (ConfigError (''Could not create '' @ sq @ fname @ sq @ '': '' @ str_exc e))))
   \<and> (path_is_file w fname = Inr False \<and> open_w w fname = Inl e \<longrightarrow>
      create_config P w fname =
        (w, Inl (ConfigError (''Could not create '' @ sq @ fname @ sq @ '': '' @ str_exc e))))
   \<and> (path_is_file w fname = Inr False \<and> open_w w fname = Inr w1
       \<and> fwrite w1 fname
            (json_dump P
              (JObject [(''root'', JString (home_dir w)),
                        (''files'', JArray [JString ''pictures'',
                                            JString ''videos/funny_vid.mp4''])]))
           = (w2, Inl e) \<longrightarrow>
      create_config P w fname =
        (w2, Inl (ConfigError (''Could not create '' @ sq @ fname @ sq @ '': '' @ str_exc e)))
      \<and> fs w2 fname \<noteq>
           Some (File (json_dump P
              (JObject [(''root'', JString (home_dir w)),
                        (''files'', JArray [JString ''pictures'',
                                            JString ''videos/funny_vid.mp4''])]))))
   \<and> (path_is_file w fname = Inr False \<and> open_w w fname = Inr w1
       \<and> fwrite w1 fname
            (json_dump P
              (JObject [(''root'', JString (home_dir w)),
                        (''files'', JArray [JString ''pictures'',
                                            JString ''videos/funny_vid.mp4''])]))
           = (w2, Inr ()) \<longrightarrow>
      create_config P w fname = (w2, Inr ())
      \<and> fs w2 fname =
           Some (File (json_dump P
              (JObject [(''root'', JString (home_dir w)),
                        (''files'', JArray [JString ''pictures'',
                                            JString ''videos/funny_vid.mp4''])]))))"
  (is "?A \<and> ?B \<and> ?C \<and> ?D \<and> ?E")
proof -
  let ?t = "json_dump P
              (JObject [(''root'', JString (home_dir w)),
                        (''files'', JArray [JString ''pictures'',
                                            JString ''videos/funny_vid.mp4''])])"
  have a: ?A
    by (simp add: create_config_def Let_def is_OSError_def str_exc_def)
  have b: ?B
    using path_is_file_error[of w fname e] by (simp add: create_config_def Let_def)
  have c: ?C
    using open_w_error[of w fname e] by (simp add: create_config_def Let_def)
  have d: ?D
  proof (intro impI)
    assume h: "path_is_file w fname = Inr False \<and> open_w w fname = Inr w1
       \<and> fwrite w1 fname ?t = (w2, Inl e)"
    then have f: "fwrite w1 fname ?t = (w2, Inl e)" by blast
    from fwrite_error[OF f] have o: "is_OSError e" and n: "fs w2 fname \<noteq> Some (File ?t)"
      by blast+
    from h o have "create_config P w fname =
        (w2, Inl (ConfigError (''Could not create '' @ sq @ fname @ sq @ '': '' @ str_exc e)))"
      by (simp add: create_config_def Let_def)
    with n show "create_config P w fname =
        (w2, Inl (ConfigError (''Could not create '' @ sq @ fname @ sq @ '': '' @ str_exc e)))
      \<and> fs w2 fname \<noteq> Some (File ?t)"
      by (rule conjI[rotated])
  qed
  have e: ?E
  proof (intro impI)
    assume h: "path_is_file w fname = Inr False \<and> open_w w fname = Inr w1
       \<and> fwrite w1 fname ?t = (w2, Inr ())"
    then have f: "fwrite w1 fname ?t = (w2, Inr ())" by blast
    from h have "create_config P w fname = (w2, Inr ())"
      by (simp add: create_config_def Let_def)
    with fwrite_done[OF f] show "create_config P w fname = (w2, Inr ())
      \<and> fs w2 fname = Some (File ?t)"
      by (rule conjI[rotated])
  qed
  from a b c d e show ?thesis by (intro conjI)
qed

theorem create_config_cases_witness:
  "path_is_file world0 ''cfg.json'' = Inr True
   \<and> create_config P0 world0 ''cfg.json'' =
        (world0, Inl (ConfigError
          (''Could not create '' @ sq @ ''cfg.json'' @ sq @ '': File already exists.'')))
   \<and> path_is_file world0 long_name
        = Inl (OSError (OSErr 36 ''File name too long'' (Some long_name)))
   \<and> create_config P0 world0 long_name =
        (world0, Inl (ConfigError
          (''Could not create '' @ sq @ long_name @ sq @ '': ''
           @ str_exc (OSError (OSErr 36 ''File name too long'' (Some long_name))))))
   \<and> path_is_file world0 ''/nodir/cfg.json'' = Inr False
   \<and> open_w world0 ''/nodir/cfg.json''
        = Inl (OSError (OSErr 2 ''No such file or directory'' (Some ''/nodir/cfg.json'')))
   \<and> create_config P0 world0 ''/nodir/cfg.json'' =
        (world0, Inl (ConfigError
          (''Could not create '' @ sq @ ''/nodir/cfg.json'' @ sq @ '': ''
           @ str_exc (OSError (OSErr 2 ''No such file or directory''
               (Some ''/nodir/cfg.json''))))))
   \<and> path_is_file world0 ''full.json'' = Inr False
   \<and> create_config P0 world0 ''full.json'' =
        (world0\<lparr>fs := (fs world0)(''full.json'' \<mapsto> File [])\<rparr>,
         Inl (ConfigError
          (''Could not create '' @ sq @ ''full.json'' @ sq @ '': ''
           @ str_exc (OSError (OSErr 28 ''No space left on device'' None)))))
   \<and> path_is_file world0 ''new.json'' = Inr False
   \<and> create_config P0 world0 ''new.json'' =
        (world0\<lparr>fs := (fs world0)(''new.json'' \<mapsto> File (json_dump P0
             (JObject [(''root'', JString ''/home/u''),
                       (''files'', JArray [JString ''pictures'',
                                           JString ''videos/funny_vid.mp4''])])))\<rparr>,
         Inr ())"
proof -
  let ?long = "OSError (OSErr 36 ''File name too long'' (Some long_name))"
  let ?nodir = "OSError (OSErr 2 ''No such file or directory'' (Some ''/nodir/cfg.json''))"
  let ?full = "OSError (OSErr 28 ''No space left on device'' None)"
  let ?t = "json_dump P0
             (JObject [(''root'', JString (home_dir world0)),
                       (''files'', JArray [JString ''pictures'',
                                           JString ''videos/funny_vid.mp4''])])"
  let ?wf = "world0\<lparr>fs := (fs world0)(''full.json'' \<mapsto> File [])\<rparr>"
  let ?wn = "world0\<lparr>fs := (fs world0)(''new.json'' \<mapsto> File [])\<rparr>"
  let ?wt = "world0\<lparr>fs := (fs world0)(''new.json'' \<mapsto> File ?t)\<rparr>"
  have 1: "path_is_file world0 ''cfg.json'' = Inr True"
    and 2: "path_is_file world0 long_name = Inl ?long"
    and 3: "path_is_file world0 ''/nodir/cfg.json'' = Inr False"
    and 4: "path_is_file world0 ''full.json'' = Inr False"
    and 5: "path_is_file world0 ''new.json'' = Inr False"
    by (simp_all add: world_simps long_name_def)
  have h: "home_dir world0 = ''/home/u''"
    by (simp add: world0_def)
  have o3: "open_w world0 ''/nodir/cfg.json'' = Inl ?nodir"
    and o4: "open_w world0 ''full.json'' = Inr ?wf"
    and o5: "open_w world0 ''new.json'' = Inr ?wn"
    by (simp_all add: open_w_def world0_def)
  have w4: "fwrite ?wf ''full.json'' ?t = (?wf, Inl ?full)"
    by (simp add: fwrite_def world0_def P0_def)
  have w5: "fwrite ?wn ''new.json'' ?t = (?wt, Inr ())"
    by (simp add: fwrite_def world0_def)
  note c = create_config_cases[of world0 _ P0]
  from 1 c[of "''cfg.json''"] have a: "create_config P0 world0 ''cfg.json'' =
        (world0, Inl (ConfigError
          (''Could not create '' @ sq @ ''cfg.json'' @ sq @ '': File already exists.'')))"
    by blast
  from 2 c[of long_name ?long] have b: "create_config P0 world0 long_name =
        (world0, Inl (ConfigError
          (''Could not create '' @ sq @ long_name @ sq @ '': '' @ str_exc ?long)))"
    by blast
  from 3 o3 c[of "''/nodir/cfg.json''" ?nodir]
  have d: "create_config P0 world0 ''/nodir/cfg.json'' =
        (world0, Inl (ConfigError
          (''Could not create '' @ sq @ ''/nodir/cfg.json'' @ sq @ '': '' @ str_exc ?nodir)))"
    by blast
  from 4 o4 w4 c[of "''full.json''" ?full ?wf ?wf]
  have e: "create_config P0 world0 ''full.json'' =
        (?wf, Inl (ConfigError
          (''Could not create '' @ sq @ ''full.json'' @ sq @ '': '' @ str_exc ?full)))"
    by blast
  from 5 o5 w5 c[of "''new.json''" _ ?wn ?wt]
  have "create_config P0 world0 ''new.json'' = (?wt, Inr ())"
    by blast
  then have f: "create_config P0 world0 ''new.json'' =
        (world0\<lparr>fs := (fs world0)(''new.json'' \<mapsto> File (json_dump P0
             (JObject [(''root'', JString ''/home/u''),
                       (''files'', JArray [JString ''pictures'',
                                           JString ''videos/funny_vid.mp4''])])))\<rparr>,
         Inr ())"
    by (simp only: h)
  from 1 2 3 4 5 o3 a b d e f show ?thesis by blast
qed

text \<open>
  Claim C9 as stated fails where the target is a directory: no regular file exists there,
  yet nothing is written; \<open>open\<close> raises and the handler turns that into a \<open>ConfigError\<close>.
\<close>

theorem create_config_counterexample:
  "path_is_file world0 ''/tmp/x'' = Inr False
   \<and> create_config P0 world0 ''/tmp/x'' =
       (world0, Inl (ConfigError
         (''Could not create '' @ sq @ ''/tmp/x'' @ sq @ '': [Errno 21] Is a directory: ''
          @ sq @ ''/tmp/x'' @ sq)))"
  by (simp add: create_config_def open_w_def is_OSError_def world_simps text_simps
      show_nat.simps)

text \<open>
  In use mode \<open>main\<close> calls \<open>load_config\<close> and drops what it returns: it prints nothing,
  touches nothing and returns.
\<close>

lemma main_use_discards:
  "use ar \<Longrightarrow> load_config P w (config ar) = Inr data \<Longrightarrow>
     main P w ar = \<lparr>exit_code = None, stdout = [], world_after = w\<rparr>"
  by (simp add: main_def Let_def)

text \<open>
  Claim C2 says that in use mode the two fields of a configuration that loads are handed
  to the archiver.  The code does not: \<open>cfg.json\<close> is a regular file that parses, and
  \<open>main\<close> returns without printing, without constructing an archive and without writing
  one; the world is as it was.
\<close>

theorem main_use_does_nothing:
  "load_config P0 world0 ''cfg.json'' = Inr example_config
   \<and> main P0 world0 \<lparr>use = True, create = False, silent = False, config = ''cfg.json''\<rparr> =
       \<lparr>exit_code = None, stdout = [], world_after = world0\<rparr>"
proof -
  have l: "load_config P0 world0 ''cfg.json'' = Inr example_config"
    by (simp add: load_config_def open_rb_def world_simps)
  with main_use_discards[of "\<lparr>use = True, create = False, silent = False, config = ''cfg.json''\<rparr>"
      P0 world0 example_config]
  show ?thesis by simp
qed

section \<open>The other ways out of main\<close>

text \<open>
  In use mode, a configuration file that exists but does not parse makes \<open>json.load\<close> raise
  a \<open>ValueError\<close>.  That is no \<open>OSError\<close>, so \<open>load_config\<close> lets it through unwrapped, and
  \<open>main\<close> reports it as an unknown error and exits with \<open>-1\<close>.
\<close>

theorem main_unparsable:
  assumes "use ar" and "path_is_file w (config ar) = Inr True"
    and "fs w (config ar) = Some (File bs)" and "json_load P bs = Inl msg"
  shows "load_config P w (config ar) = Inl (ValueError msg)
    \<and> main P w ar =
        \<lparr>exit_code = Some (- 1),
         stdout = nprint (silent ar) []
           (''Unknown error occurred while loading or creating configuration a file: '' @ msg),
         world_after = w\<rparr>"
proof -
  from assms(2,3,4) have l: "load_config P w (config ar) = Inl (ValueError msg)"
    by (simp add: load_config_def Let_def open_rb_def is_OSError_def)
  with assms(1) show ?thesis
    by (simp add: main_def Let_def on_error_def is_ConfigError_def str_exc_def)
qed

theorem main_unparsable_witness:
  "use \<lparr>use = True, create = False, silent = False, config = ''notes.txt''\<rparr>
   \<and> path_is_file world0
        (config \<lparr>use = True, create = False, silent = False, config = ''notes.txt''\<rparr>)
       = Inr True
   \<and> fs world0 (config \<lparr>use = True, create = False, silent = False, config = ''notes.txt''\<rparr>)
       = Some (File [7, 8])
   \<and> json_load P0 [7, 8] = Inl ''Expecting value''
   \<and> main P0 world0 \<lparr>use = True, create = False, silent = False, config = ''notes.txt''\<rparr> =
        \<lparr>exit_code = Some (- 1),
         stdout = [''Unknown error occurred while loading or creating configuration a file: ''
                   @ ''Expecting value''],
         world_after = world0\<rparr>"
proof -
  let ?ar = "\<lparr>use = True, create = False, silent = False, config = ''notes.txt''\<rparr>"
  have 1: "use ?ar" by simp
  have 2: "path_is_file world0 (config ?ar) = Inr True"
    by (simp add: world_simps)
  have 3: "fs world0 (config ?ar) = Some (File [7, 8])"
    by (simp add: world0_def)
  have 4: "json_load P0 [7, 8] = Inl ''Expecting value''"
    by (simp add: P0_def)
  from 1 2 3 4 main_unparsable[OF 1 2 3 4] show ?thesis
    by (simp add: nprint_def)
qed

text \<open>
  In create mode, when no regular file is in the way, the target can be opened and the
  writing goes through, \<open>main\<close> leaves the template, prints \<open>Created '<config>'.\<close> unless
  silenced, and exits with \<open>0\<close>.
\<close>

theorem main_creates:
  assumes "\<not> use ar" and "path_is_file w (config ar) = Inr False"
    and "open_w w (config ar) = Inr w1"
    and "fwrite w1 (config ar)
           (json_dump P
             (JObject [(''root'', JString (home_dir w)),
                       (''files'', JArray [JString ''pictures'',
                                           JString ''videos/funny_vid.mp4''])]))
         = (w2, Inr ())"
  shows "main P w ar =
        \<lparr>exit_code = Some 0,
         stdout = nprint (silent ar) [] (''Created '' @ sq @ config ar @ sq @ ''.''),
         world_after = w2\<rparr>"
proof -
  from assms(2,3,4) have "create_config P w (config ar) = (w2, Inr ())"
    by (simp add: create_config_def Let_def)
  with assms(1) show ?thesis
    by (simp add: main_def Let_def)
qed

theorem main_creates_witness:
  "\<not> use \<lparr>use = False, create = True, silent = True, config = ''new.json''\<rparr>
   \<and> path_is_file world0
         (config \<lparr>use = False, create = True, silent = True, config = ''new.json''\<rparr>)
       = Inr False
   \<and> open_w world0 (config \<lparr>use = False, create = True, silent = True, config = ''new.json''\<rparr>)
       = Inr (world0\<lparr>fs := (fs world0)(''new.json'' \<mapsto> File [])\<rparr>)
   \<and> main P0 world0 \<lparr>use = False, create = True, silent = True, config = ''new.json''\<rparr> =
        \<lparr>exit_code = Some 0, stdout = [],
         world_after = world0\<lparr>fs := (fs world0)(''new.json'' \<mapsto> File [1, 2, 3])\<rparr>\<rparr>"
proof -
  let ?ar = "\<lparr>use = False, create = True, silent = True, config = ''new.json''\<rparr>"
  let ?wn = "world0\<lparr>fs := (fs world0)(''new.json'' \<mapsto> File [])\<rparr>"
  let ?wt = "world0\<lparr>fs := (fs world0)(''new.json'' \<mapsto> File [1, 2, 3])\<rparr>"
  have 1: "\<not> use ?ar" by simp
  have 2: "path_is_file world0 (config ?ar) = Inr False"
    by (simp add: world_simps)
  have 3: "open_w world0 (config ?ar) = Inr ?wn"
    by (simp add: open_w_def world0_def)
  have 4: "fwrite ?wn (config ?ar)
           (json_dump P0
             (JObject [(''root'', JString (home_dir world0)),
                       (''files'', JArray [JString ''pictures'',
                                           JString ''videos/funny_vid.mp4''])]))
         = (?wt, Inr ())"
    by (simp add: fwrite_def world0_def P0_def)
  from 1 2 3 main_creates[OF 1 2 3 4] show ?thesis
    by (simp add: nprint_def)
qed

end
